theory Spec2Isabelle
  imports Main "HOL-Library.Sublist" "HOL-Library.AList"
begin

section \<open>The generated implementors script\<close>

text \<open>
  The file \<^verbatim>\<open>implementors/actix/actor/trait.Actor.js\<close> is one immediately invoked
  function:
  \<^verbatim>\<open>
  (function() {var implementors = {};
  implementors["actix_web"] = ["impl Actor for ...", "impl&lt;T, A, H, U, V&gt; Actor for ...",];
      if (window.register_implementors) {
          window.register_implementors(implementors);
      } else {
          window.pending_implementors = implementors;
      }
  })()
  \<close>
  It is modelled as a function from the state it starts in (the properties of
  \<^verbatim>\<open>window\<close>, the object heap, and how a call of each function ends) to a run: the
  state its own steps leave, the effects it had on \<^verbatim>\<open>window\<close> in order, and how it
  completed.
\<close>

subsection \<open>Values, objects, heap\<close>

text \<open>
  JavaScript values as far as the script can tell them apart: the condition of the
  \<^verbatim>\<open>if\<close> converts the property to a boolean, and the call needs a callable value.
  Numbers are kept as integers plus NaN (only being zero or NaN matters to the
  conversion). Plain objects and arrays live on the heap and are referred to by address;
  a function is a callable object, identified by a number, whose body is code of the
  documentation browser and not of this file.

  The script calls such a function without \<^verbatim>\<open>try\<close>, so how the call ends is how
  the script ends: the call returns, or it throws a value, or it never returns. The
  state says this for each function, given the argument and the window and heap at the
  time of the call.
\<close>

datatype jsval =
    JUndefined
  | JNull
  | JBool bool
  | JNum int
  | JNaN
  | JStr string
  | JRef nat
  | JFun nat

datatype jsobj =
    Obj "(string \<times> jsval) list"
  | Arr "jsval list"

type_synonym heap = "jsobj list"

datatype call_end = Returns | Throws jsval | Never_returns

record state =
  window :: "string \<Rightarrow> jsval"
  heap :: heap
  bodies :: "nat \<Rightarrow> jsval \<Rightarrow> (string \<Rightarrow> jsval) \<Rightarrow> heap \<Rightarrow> call_end"

text \<open>A property that was never assigned reads as \<^verbatim>\<open>undefined\<close>.\<close>

definition no_properties :: "string \<Rightarrow> jsval" where
  "no_properties = (\<lambda>p. JUndefined)"

text \<open>The conversion to boolean that \<^verbatim>\<open>if (...)\<close> applies.\<close>

fun truthy :: "jsval \<Rightarrow> bool" where
  "truthy JUndefined = False"
| "truthy JNull = False"
| "truthy (JBool b) = b"
| "truthy (JNum n) = (n \<noteq> 0)"
| "truthy JNaN = False"
| "truthy (JStr s) = (s \<noteq> [])"
| "truthy (JRef a) = True"
| "truthy (JFun f) = True"

fun callable :: "jsval \<Rightarrow> bool" where
  "callable (JFun f) = True"
| "callable v = False"

text \<open>An object or array literal allocates a new heap cell, at the next free address.\<close>

definition alloc :: "heap \<Rightarrow> jsobj \<Rightarrow> nat \<times> heap" where
  "alloc h ob = (length h, h @ [ob])"

definition deref :: "heap \<Rightarrow> jsval \<Rightarrow> jsobj option" where
  "deref h v = (case v of
       JRef a \<Rightarrow> (if a < length h then Some (h ! a) else None)
     | _ \<Rightarrow> None)"

text \<open>
  \<^verbatim>\<open>o[k] = v\<close> on a plain object: an existing key keeps its place and gets the new
  value, a new key is added at the end. The script applies it only to the object it has
  just created; on anything else the heap is left as it is.
\<close>

definition set_prop :: "heap \<Rightarrow> jsval \<Rightarrow> string \<Rightarrow> jsval \<Rightarrow> heap" where
  "set_prop h target k v = (case target of
       JRef a \<Rightarrow> (if a < length h
                  then (case h ! a of
                          Obj ps \<Rightarrow> h[a := Obj (AList.update k v ps)]
                        | Arr xs \<Rightarrow> h)
                  else h)
     | _ \<Rightarrow> h)"

subsection \<open>The two string literals of line 2\<close>

text \<open>
  The literals with the escapes of the JavaScript source resolved (\<^verbatim>\<open>\"\<close> is the
  character \<^verbatim>\<open>"\<close>). The array literal ends in a comma, which adds no element.
\<close>

definition entry_ClientConnector :: string where
  \<open>entry_ClientConnector = ''impl Actor for <a class="struct" href="actix_web/client/struct.ClientConnector.html" title="struct actix_web::client::ClientConnector">ClientConnector</a>''\<close>

definition entry_HttpServer :: string where
  \<open>entry_HttpServer = ''impl&lt;T, A, H, U, V&gt; Actor for <a class="struct" href="actix_web/struct.HttpServer.html" title="struct actix_web::HttpServer">HttpServer</a>&lt;T, A, H, U&gt; <span class="where fmt-newline">where<br>&nbsp;&nbsp;&nbsp;&nbsp;A: 'static,<br>&nbsp;&nbsp;&nbsp;&nbsp;T: <a class="trait" href="actix_web/server/trait.IoStream.html" title="trait actix_web::server::IoStream">IoStream</a>,<br>&nbsp;&nbsp;&nbsp;&nbsp;H: <a class="trait" href="actix_web/server/trait.HttpHandler.html" title="trait actix_web::server::HttpHandler">HttpHandler</a>,<br>&nbsp;&nbsp;&nbsp;&nbsp;U: <a class="trait" href="https://doc.rust-lang.org/nightly/core/iter/traits/trait.IntoIterator.html" title="trait core::iter::traits::IntoIterator">IntoIterator</a>&lt;Item = V&gt; + 'static,<br>&nbsp;&nbsp;&nbsp;&nbsp;V: <a class="trait" href="actix_web/server/trait.IntoHttpHandler.html" title="trait actix_web::server::IntoHttpHandler">IntoHttpHandler</a>&lt;Handler = H&gt;,&nbsp;</span>''\<close>

subsection \<open>Runs\<close>

text \<open>
  What the script does to \<^verbatim>\<open>window\<close>: it calls a function stored there, or it
  assigns a property. A call of a value that is not a function throws a TypeError; a
  call of a function ends as the function's body makes it end, and an exception of the
  body leaves the script, which has no handler. In a run, \<open>final\<close> is the state as the
  script's own steps leave it (what the body of a called function writes is not recorded
  there), \<open>trace\<close> is what the script did to \<^verbatim>\<open>window\<close>, in order, and \<open>result\<close> is
  how the run ended.
\<close>

datatype event =
    Call nat jsval
  | Write string jsval

datatype completion = Normal | TypeError | Hook_threw jsval | Hook_never_returns

fun after_call :: "call_end \<Rightarrow> completion" where
  "after_call Returns = Normal"
| "after_call (Throws x) = Hook_threw x"
| "after_call Never_returns = Hook_never_returns"

record run =
  final :: state
  trace :: "event list"
  result :: completion

text \<open>Lines 1 and 2: the empty object, the array, the assignment of the key.\<close>

definition build_implementors :: "heap \<Rightarrow> jsval \<times> heap" where
  "build_implementors h =
     (let (a, h1) = alloc h (Obj []);
          implementors = JRef a;
          (b, h2) = alloc h1 (Arr [JStr entry_ClientConnector, JStr entry_HttpServer]);
          h3 = set_prop h2 implementors ''actix_web'' (JRef b)
      in (implementors, h3))"

text \<open>\<^verbatim>\<open>window.register_implementors(arg)\<close>: the value read from the property is called.\<close>

definition call_value :: "jsval \<Rightarrow> jsval \<Rightarrow> state \<Rightarrow> run" where
  "call_value callee arg s = (case callee of
       JFun f \<Rightarrow> \<lparr>final = s, trace = [Call f arg],
                  result = after_call (bodies s f arg (window s) (heap s))\<rparr>
     | _ \<Rightarrow> \<lparr>final = s, trace = [], result = TypeError\<rparr>)"

definition script :: "state \<Rightarrow> run" where
  "script s =
     (let (implementors, h) = build_implementors (heap s);
          s1 = s\<lparr>heap := h\<rparr>
      in if truthy (window s1 ''register_implementors'')
         then call_value (window s1 ''register_implementors'') implementors s1
         else \<lparr>final = s1\<lparr>window := (window s1)(''pending_implementors'' := implementors)\<rparr>,
               trace = [Write ''pending_implementors'' implementors],
               result = Normal\<rparr>)"

subsection \<open>Reading a run\<close>

text \<open>The value of the local variable \<^verbatim>\<open>implementors\<close> in a run from \<open>s\<close>.\<close>

definition the_implementors :: "state \<Rightarrow> jsval" where
  "the_implementors s = fst (build_implementors (heap s))"

definition hook :: "state \<Rightarrow> jsval" where
  "hook s = window s ''register_implementors''"

definition pending :: "state \<Rightarrow> jsval" where
  "pending s = window s ''pending_implementors''"

text \<open>
  How the call of the hook ends in a run from \<open>s\<close>, when the hook property holds a
  function; \<open>None\<close> when it holds anything else.
\<close>

definition hook_end :: "state \<Rightarrow> call_end option" where
  "hook_end s = (case hook s of
       JFun f \<Rightarrow> Some (bodies s f (the_implementors s) (window s)
                         (snd (build_implementors (heap s))))
     | _ \<Rightarrow> None)"

text \<open>The values the script handed over, to a function or to a property.\<close>

fun delivered_by :: "event \<Rightarrow> jsval" where
  "delivered_by (Call f v) = v"
| "delivered_by (Write p v) = v"

definition delivered :: "run \<Rightarrow> jsval list" where
  "delivered r = map delivered_by (trace r)"

fun is_call :: "event \<Rightarrow> bool" where
  "is_call (Call f v) = True"
| "is_call (Write p v) = False"

fun written_property :: "event \<Rightarrow> string option" where
  "written_property (Call f v) = None"
| "written_property (Write p v) = Some p"

text \<open>The two outcomes: the hook got the mapping, or the pending variable did.\<close>

definition registered :: "run \<Rightarrow> jsval \<Rightarrow> bool" where
  "registered r m = (case trace r of [Call f v] \<Rightarrow> v = m | _ \<Rightarrow> False)"

definition deferred :: "run \<Rightarrow> jsval \<Rightarrow> bool" where
  "deferred r m = (trace r = [Write ''pending_implementors'' m] \<and> pending (final r) = m)"

subsection \<open>The implementors index as data\<close>

text \<open>
  The index as a table from keys to sequences of strings, read off the heap: the value
  must refer to a plain object, each of its properties to an array, and each element of
  that array must be a string. Anything else has no reading.
\<close>

type_synonym index = "(string \<times> string list) list"

fun strings_of :: "jsval list \<Rightarrow> string list option" where
  "strings_of [] = Some []"
| "strings_of (JStr x # vs) = map_option (Cons x) (strings_of vs)"
| "strings_of (v # vs) = None"

definition sequence_at :: "heap \<Rightarrow> jsval \<Rightarrow> string list option" where
  "sequence_at h v = (case deref h v of Some (Arr xs) \<Rightarrow> strings_of xs | _ \<Rightarrow> None)"

fun entries_of :: "heap \<Rightarrow> (string \<times> jsval) list \<Rightarrow> index option" where
  "entries_of h [] = Some []"
| "entries_of h ((k, v) # ps) =
     (case sequence_at h v of
        None \<Rightarrow> None
      | Some xs \<Rightarrow> map_option (Cons (k, xs)) (entries_of h ps))"

definition index_of :: "heap \<Rightarrow> jsval \<Rightarrow> index option" where
  "index_of h v = (case deref h v of Some (Obj ps) \<Rightarrow> entries_of h ps | _ \<Rightarrow> None)"

text \<open>The index a run from \<open>s\<close> builds, as it is when the run ends.\<close>

definition index_built :: "state \<Rightarrow> index option" where
  "index_built s = index_of (heap (final (script s))) (the_implementors s)"

subsection \<open>What the entries say\<close>

text \<open>
  The shape of an entry as rustdoc writes it: \<^verbatim>\<open>impl\<close>, the generics of the impl, the
  trait, \<^verbatim>\<open>for\<close>, a link to the implementing type, the type's arguments, and the
  where-clause with one line for each bound. The two literals of the source are compared
  with this shape below.
\<close>

definition anchor :: "string \<Rightarrow> string \<Rightarrow> string \<Rightarrow> string \<Rightarrow> string" where
  \<open>anchor cls href title txt =
     ''<a class="'' @ cls @ ''" href="'' @ href @ ''" title="'' @ title @ ''">'' @ txt @ ''</a>''\<close>

definition where_line :: "string \<Rightarrow> string" where
  "where_line b = ''<br>&nbsp;&nbsp;&nbsp;&nbsp;'' @ b @ '',''"

definition where_clause :: "string list \<Rightarrow> string" where
  \<open>where_clause bs =
     ''<span class="where fmt-newline">where'' @ concat (map where_line bs) @ ''&nbsp;</span>''\<close>

record implementor =
  impl_generics :: string
  trait_name :: string
  type_href :: string
  type_path :: string
  type_name :: string
  type_args :: string
  bounds :: "string list"

definition render :: "implementor \<Rightarrow> string" where
  "render i =
     ''impl'' @ impl_generics i @ '' '' @ trait_name i @ '' for ''
     @ anchor ''struct'' (type_href i) (''struct '' @ type_path i) (type_name i)
     @ type_args i
     @ (if bounds i = [] then [] else '' '' @ where_clause (bounds i))"

definition ClientConnector_impl :: implementor where
  "ClientConnector_impl =
     \<lparr>impl_generics = [], trait_name = ''Actor'',
      type_href = ''actix_web/client/struct.ClientConnector.html'',
      type_path = ''actix_web::client::ClientConnector'',
      type_name = ''ClientConnector'', type_args = [], bounds = []\<rparr>"

definition HttpServer_impl :: implementor where
  "HttpServer_impl =
     \<lparr>impl_generics = ''&lt;T, A, H, U, V&gt;'', trait_name = ''Actor'',
      type_href = ''actix_web/struct.HttpServer.html'',
      type_path = ''actix_web::HttpServer'',
      type_name = ''HttpServer'', type_args = ''&lt;T, A, H, U&gt;'',
      bounds =
        [''A: 'static'',
         ''T: '' @ anchor ''trait'' ''actix_web/server/trait.IoStream.html''
                    ''trait actix_web::server::IoStream'' ''IoStream'',
         ''H: '' @ anchor ''trait'' ''actix_web/server/trait.HttpHandler.html''
                    ''trait actix_web::server::HttpHandler'' ''HttpHandler'',
         ''U: '' @ anchor ''trait''
                    ''https://doc.rust-lang.org/nightly/core/iter/traits/trait.IntoIterator.html''
                    ''trait core::iter::traits::IntoIterator'' ''IntoIterator''
               @ ''&lt;Item = V&gt; + 'static'',
         ''V: '' @ anchor ''trait'' ''actix_web/server/trait.IntoHttpHandler.html''
                    ''trait actix_web::server::IntoHttpHandler'' ''IntoHttpHandler''
               @ ''&lt;Handler = H&gt;'']\<rparr>"

text \<open>
  A qualified name \<^verbatim>\<open>a::b::T\<close> names the trait of an entry when the entry reads
  \<^verbatim>\<open>... T for ...\<close>. A key names the crate of an implementor when the implementing
  type's path and link start with it.
\<close>

definition last_segment :: "string \<Rightarrow> string" where
  "last_segment k = rev (takeWhile (\<lambda>c. c \<noteq> CHR '':'') (rev k))"

definition names_trait :: "string \<Rightarrow> string \<Rightarrow> bool" where
  "names_trait k e = sublist ('' '' @ last_segment k @ '' for '') e"

definition keys_name_trait :: "index \<Rightarrow> bool" where
  "keys_name_trait idx = list_all (\<lambda>(k, es). list_all (names_trait k) es) idx"

definition from_crate :: "string \<Rightarrow> implementor \<Rightarrow> bool" where
  "from_crate k i = (prefix (k @ ''::'') (type_path i) \<and> prefix (k @ ''/'') (type_href i))"

subsection \<open>Some pages\<close>

text \<open>
  A page whose \<^verbatim>\<open>window\<close> has the two properties set to the given values, nothing on
  the heap, and functions that all return; one where the hook property holds an empty
  plain object; and one whose hook is a function whose call ends as given.
\<close>

definition all_return :: "nat \<Rightarrow> jsval \<Rightarrow> (string \<Rightarrow> jsval) \<Rightarrow> heap \<Rightarrow> call_end" where
  "all_return = (\<lambda>f arg w h. Returns)"

definition page :: "jsval \<Rightarrow> jsval \<Rightarrow> state" where
  "page hook_value pending_value =
     \<lparr>window = (no_properties(''register_implementors'' := hook_value))
                  (''pending_implementors'' := pending_value),
      heap = [], bodies = all_return\<rparr>"

definition page_with_object_hook :: state where
  "page_with_object_hook =
     \<lparr>window = no_properties(''register_implementors'' := JRef 0), heap = [Obj []],
      bodies = all_return\<rparr>"

definition page_with_hook_ending :: "call_end \<Rightarrow> state" where
  "page_with_hook_ending e =
     \<lparr>window = no_properties(''register_implementors'' := JFun 0), heap = [],
      bodies = (\<lambda>f arg w h. e)\<rparr>"

subsection \<open>The effect of a run\<close>

text \<open>
  Which branch of the \<^verbatim>\<open>if\<close> ran (the \<^verbatim>\<open>else\<close> branch is the one that assigns), the
  mapping the hook received and the mapping stored in the pending variable, each read as
  an index (\<open>None\<close> when there was no such call or assignment).
\<close>

datatype branch = Then_branch | Else_branch

record effect =
  taken :: branch
  hook_argument :: "index option"
  stored :: "index option"

definition effect_of :: "state \<Rightarrow> effect" where
  "effect_of s =
     (let r = script s in
      \<lparr>taken = (if list_ex is_call (trace r) \<or> trace r = [] then Then_branch else Else_branch),
       hook_argument = (case trace r of
                          [Call f v] \<Rightarrow> index_of (heap (final r)) v
                        | _ \<Rightarrow> None),
       stored = (case trace r of
                   [Write p v] \<Rightarrow> index_of (heap (final r)) v
                 | _ \<Rightarrow> None)\<rparr>)"

text \<open>An entry that is the rendering of an implementor shows its type and its bounds.\<close>

definition describes :: "implementor \<Rightarrow> string \<Rightarrow> bool" where
  "describes i e =
     (e = render i
      \<and> sublist (type_name i @ ''</a>'' @ type_args i) e
      \<and> list_all (\<lambda>b. sublist b e) (bounds i))"


section \<open>Basic facts\<close>

lemma build_implementors_eq:
  "build_implementors h =
     (JRef (length h),
      h @ [Obj [(''actix_web'', JRef (Suc (length h)))],
           Arr [JStr entry_ClientConnector, JStr entry_HttpServer]])"
  by (simp add: build_implementors_def alloc_def set_prop_def nth_append list_update_append)

lemma the_implementors_eq: "the_implementors s = JRef (length (heap s))"
  by (simp add: the_implementors_def build_implementors_eq)

lemma script_calls:
  assumes "hook s = JFun f"
  shows "script s =
    \<lparr>final = s\<lparr>heap := snd (build_implementors (heap s))\<rparr>,
     trace = [Call f (the_implementors s)],
     result = after_call (bodies s f (the_implementors s) (window s)
                (snd (build_implementors (heap s))))\<rparr>"
  using assms
  by (simp add: script_def hook_def the_implementors_def call_value_def build_implementors_eq)

lemma script_defers:
  assumes "\<not> truthy (hook s)"
  shows "script s =
    \<lparr>final = s\<lparr>heap := snd (build_implementors (heap s)),
                 window := (window s)(''pending_implementors'' := the_implementors s)\<rparr>,
     trace = [Write ''pending_implementors'' (the_implementors s)], result = Normal\<rparr>"
  using assms
  by (simp add: script_def hook_def the_implementors_def build_implementors_eq)

lemma script_throws:
  assumes "truthy (hook s)" and "\<not> callable (hook s)"
  shows "script s =
    \<lparr>final = s\<lparr>heap := snd (build_implementors (heap s))\<rparr>, trace = [], result = TypeError\<rparr>"
  using assms
  by (cases "hook s")
     (simp_all add: script_def hook_def the_implementors_def call_value_def build_implementors_eq)

lemma script_cases:
  obtains (calls) f where "hook s = JFun f"
  | (defers) "\<not> truthy (hook s)" "\<not> callable (hook s)"
  | (throws) "truthy (hook s)" "\<not> callable (hook s)"
  by (cases "hook s") auto

lemma heap_final: "heap (final (script s)) = snd (build_implementors (heap s))"
  by (cases s rule: script_cases) (simp_all add: script_calls script_defers script_throws)

lemma index_of_built:
  "index_of (snd (build_implementors h)) (JRef (length h)) =
     Some [(''actix_web'', [entry_ClientConnector, entry_HttpServer])]"
  by (simp add: build_implementors_eq index_of_def deref_def sequence_at_def nth_append)

lemma index_built_eq:
  "index_built s = Some [(''actix_web'', [entry_ClientConnector, entry_HttpServer])]"
  by (simp add: index_built_def heap_final the_implementors_eq index_of_built)

lemma entry_ClientConnector_render: "entry_ClientConnector = render ClientConnector_impl"
  by (simp add: entry_ClientConnector_def render_def ClientConnector_impl_def anchor_def)

lemma entry_HttpServer_render: "entry_HttpServer = render HttpServer_impl"
  by (simp add: entry_HttpServer_def render_def HttpServer_impl_def anchor_def
      where_clause_def where_line_def)

lemma sublist_skip: "sublist xs ys \<Longrightarrow> sublist xs (zs @ ys)"
  unfolding sublist_def by (metis append_assoc)

lemma sublist_where_clause:
  assumes "b \<in> set bs"
  shows "sublist b (where_clause bs)"
proof -
  from assms obtain us vs where "bs = us @ b # vs"
    by (meson split_list)
  then have "where_clause bs =
      (''<span class=\"where fmt-newline\">where'' @ concat (map where_line us)
         @ ''<br>&nbsp;&nbsp;&nbsp;&nbsp;'')
      @ b @ ('','' @ concat (map where_line vs) @ ''&nbsp;</span>'')"
    unfolding where_clause_def where_line_def
    by (simp only: map_append concat_append list.map concat.simps append_assoc)
  then show ?thesis
    by (metis sublist_appendI)
qed

lemma render_type:
  "sublist (type_name i @ ''</a>'' @ type_args i) (render i)"
proof -
  have "render i =
      (''impl'' @ impl_generics i @ '' '' @ trait_name i @ '' for ''
         @ ''<a class=\"'' @ ''struct'' @ ''\" href=\"'' @ type_href i @ ''\" title=\"''
         @ (''struct '' @ type_path i) @ ''\">'')
      @ (type_name i @ ''</a>'' @ type_args i)
      @ (if bounds i = [] then [] else '' '' @ where_clause (bounds i))"
    unfolding render_def anchor_def by (simp only: append_assoc)
  then show ?thesis
    by (metis sublist_appendI)
qed

lemma render_trait: "sublist ('' '' @ trait_name i @ '' for '') (render i)"
proof -
  have "render i = (''impl'' @ impl_generics i) @ ('' '' @ trait_name i @ '' for '')
      @ (anchor ''struct'' (type_href i) (''struct '' @ type_path i) (type_name i)
         @ type_args i
         @ (if bounds i = [] then [] else '' '' @ where_clause (bounds i)))"
    unfolding render_def by (simp only: append_assoc)
  then show ?thesis
    by (metis sublist_appendI)
qed

lemma render_bounds:
  assumes "b \<in> set (bounds i)"
  shows "sublist b (render i)"
proof -
  from assms have "bounds i \<noteq> []"
    by auto
  moreover from assms have "sublist b (where_clause (bounds i))"
    by (rule sublist_where_clause)
  ultimately show ?thesis
    unfolding render_def by (simp only: if_False) (intro sublist_skip)
qed

lemma render_describes: "describes i (render i)"
  unfolding describes_def list_all_iff
  by (intro conjI ballI refl render_type render_bounds)

lemma hook_page: "hook (page h p) = h"
  by (simp add: hook_def page_def)

lemma pending_page: "pending (page h p) = p"
  by (simp add: pending_def page_def)

lemma heap_page: "heap (page h p) = []"
  by (simp add: page_def)

lemma hook_pending_update:
  "hook (s\<lparr>window := (window s)(''pending_implementors'' := v)\<rparr>) = hook s"
  by (simp add: hook_def)

lemma index_at_end:
  "index_of (heap (final (script s))) (the_implementors s) =
     Some [(''actix_web'', [entry_ClientConnector, entry_HttpServer])]"
  using index_built_eq [of s] by (simp add: index_built_def)

lemma effect_of_eq:
  "effect_of s =
     \<lparr>taken = (if truthy (hook s) then Then_branch else Else_branch),
      hook_argument = (if callable (hook s)
                       then Some [(''actix_web'', [entry_ClientConnector, entry_HttpServer])]
                       else None),
      stored = (if truthy (hook s)
                then None
                else Some [(''actix_web'', [entry_ClientConnector, entry_HttpServer])])\<rparr>"
proof (cases s rule: script_cases)
  case (calls f)
  have "trace (script s) = [Call f (the_implementors s)]"
    by (simp add: script_calls [OF calls])
  with calls index_at_end [of s] show ?thesis
    by (simp add: effect_of_def Let_def)
next
  case defers
  have "trace (script s) = [Write ''pending_implementors'' (the_implementors s)]"
    by (simp add: script_defers [OF defers(1)])
  with defers index_at_end [of s] show ?thesis
    by (simp add: effect_of_def Let_def)
next
  case throws
  have "trace (script s) = []"
    by (simp add: script_throws [OF throws])
  with throws show ?thesis
    by (simp add: effect_of_def Let_def)
qed

lemma result_eq:
  "result (script t) =
     (case hook_end t of
        Some e \<Rightarrow> after_call e
      | None \<Rightarrow> if truthy (hook t) then TypeError else Normal)"
proof (cases t rule: script_cases)
  case (calls f)
  then show ?thesis by (simp add: script_calls hook_end_def)
next
  case defers
  then show ?thesis by (cases "hook t") (simp_all add: script_defers hook_end_def)
next
  case throws
  then show ?thesis by (cases "hook t") (simp_all add: script_throws hook_end_def)
qed

lemma hook_end_callable: "hook_end t \<noteq> None \<longleftrightarrow> callable (hook t)"
  by (cases "hook t") (simp_all add: hook_end_def)

lemma hook_end_page: "hook_end (page (JFun f) p) = Some Returns"
  by (simp add: hook_end_def hook_page) (simp add: page_def all_return_def)

lemma hook_page_with_hook_ending: "hook (page_with_hook_ending e) = JFun 0"
  by (simp add: hook_def page_with_hook_ending_def)

lemma hook_end_page_with_hook_ending: "hook_end (page_with_hook_ending e) = Some e"
  by (simp add: hook_end_def hook_page_with_hook_ending) (simp add: page_with_hook_ending_def)

section \<open>Registration: hook or pending variable\<close>

text \<open>
  C1. The claim: when the script runs, the hook \<^verbatim>\<open>window.register_implementors\<close> is
  called exactly once with the implementors mapping if it is available, and otherwise the
  mapping is stored in \<^verbatim>\<open>window.pending_implementors\<close>; for every initial window
  state exactly one of the two happens.

  The script tests the property for truth and then calls it. As proved: when the property
  holds a function, that function is called once with the mapping and nothing is stored;
  when the property is falsy (undefined, null, false, 0, NaN, the empty string), the
  mapping is stored and nothing is called; when it is truthy and not a function, the call
  throws a TypeError and neither happens.
\<close>

theorem hook_or_pending:
  "(hook s = JFun f \<longrightarrow>
      trace (script s) = [Call f (the_implementors s)]
      \<and> registered (script s) (the_implementors s)
      \<and> \<not> deferred (script s) (the_implementors s))
   \<and> (\<not> truthy (hook s) \<longrightarrow>
      deferred (script s) (the_implementors s)
      \<and> \<not> registered (script s) (the_implementors s))
   \<and> (truthy (hook s) \<and> \<not> callable (hook s) \<longrightarrow>
      trace (script s) = [] \<and> result (script s) = TypeError)"
proof (intro conjI impI)
  assume h: "hook s = JFun f"
  show "trace (script s) = [Call f (the_implementors s)]"
    by (simp add: script_calls [OF h])
  show "registered (script s) (the_implementors s)"
    by (simp add: script_calls [OF h] registered_def)
  show "\<not> deferred (script s) (the_implementors s)"
    by (simp add: script_calls [OF h] deferred_def)
next
  assume h: "\<not> truthy (hook s)"
  show "deferred (script s) (the_implementors s)"
    by (simp add: script_defers [OF h] deferred_def pending_def)
  show "\<not> registered (script s) (the_implementors s)"
    by (simp add: script_defers [OF h] registered_def)
next
  assume h: "truthy (hook s) \<and> \<not> callable (hook s)"
  then have r: "script s =
      \<lparr>final = s\<lparr>heap := snd (build_implementors (heap s))\<rparr>, trace = [], result = TypeError\<rparr>"
    by (simp add: script_throws)
  show "trace (script s) = []" by (simp add: r)
  show "result (script s) = TypeError" by (simp add: r)
qed

text \<open>The theorem at a page with a hook, a page without, and a page whose hook is 1.\<close>

theorem hook_or_pending_witness:
  "hook (page (JFun 7) JUndefined) = JFun 7
   \<and> trace (script (page (JFun 7) JUndefined)) = [Call 7 (JRef 0)]
   \<and> \<not> truthy (hook (page JUndefined JNull))
   \<and> deferred (script (page JUndefined JNull)) (JRef 0)
   \<and> truthy (hook (page (JNum 1) JNull)) \<and> \<not> callable (hook (page (JNum 1) JNull))
   \<and> result (script (page (JNum 1) JNull)) = TypeError"
  using hook_or_pending [of "page (JFun 7) JUndefined" 7]
    hook_or_pending [of "page JUndefined JNull"]
    hook_or_pending [of "page (JNum 1) JNull"]
  by (simp add: hook_page the_implementors_eq heap_page)

text \<open>
  With \<^verbatim>\<open>window.register_implementors = 1\<close> the condition holds, the call throws, and
  the mapping is neither passed to a hook nor stored.
\<close>

theorem number_hook_neither:
  "\<not> registered (script (page (JNum 1) JUndefined)) (the_implementors (page (JNum 1) JUndefined))
   \<and> \<not> deferred (script (page (JNum 1) JUndefined)) (the_implementors (page (JNum 1) JUndefined))"
  by (simp add: script_throws hook_page registered_def deferred_def)

section \<open>One pass\<close>

text \<open>
  C6. The claim: the script terminates; as a total function of the initial window state
  it runs one straight-line pass (one conditional, no loop, no recursion) and performs
  its registration effect exactly once in every execution.

  The script has no loop of its own, but line 5 calls the hook and waits for it. As
  proved: a run ends (normally or by an exception) in every state except those where the
  hook property holds a function whose call never returns; a run has at most one effect,
  and exactly one when the property is a function (the call, however it then ends) or is
  falsy (the assignment of the pending variable); when the property is truthy and not a
  function the run ends with a TypeError and has no effect.
\<close>

theorem one_pass:
  "(result (script s) = Hook_never_returns \<longleftrightarrow> hook_end s = Some Never_returns)
   \<and> length (trace (script s)) \<le> 1
   \<and> (length (trace (script s)) = 1 \<longleftrightarrow> callable (hook s) \<or> \<not> truthy (hook s))
   \<and> (callable (hook s) \<longrightarrow> list_all is_call (trace (script s)))
   \<and> (\<not> truthy (hook s) \<longrightarrow>
        trace (script s) = [Write ''pending_implementors'' (the_implementors s)]
        \<and> result (script s) = Normal)
   \<and> (truthy (hook s) \<and> \<not> callable (hook s) \<longrightarrow>
        trace (script s) = [] \<and> result (script s) = TypeError)"
proof (cases s rule: script_cases)
  case (calls f)
  then have "hook_end s = Some (bodies s f (the_implementors s) (window s)
      (snd (build_implementors (heap s))))"
    by (simp add: hook_end_def)
  moreover have "after_call e = Hook_never_returns \<longleftrightarrow> e = Never_returns" for e
    by (cases e) simp_all
  ultimately show ?thesis
    using calls by (simp add: script_calls)
next
  case defers
  then have "hook_end s = None"
    using hook_end_callable [of s] by simp
  with defers show ?thesis
    by (simp add: script_defers)
next
  case throws
  then have "hook_end s = None"
    using hook_end_callable [of s] by simp
  with throws show ?thesis
    by (simp add: script_throws)
qed

text \<open>
  The theorem at a page whose hook returns, a page whose hook never returns, a page
  whose hook property is the empty string, and a page whose hook property is a number.
\<close>

theorem one_pass_witness:
  "callable (hook (page (JFun 3) JUndefined))
   \<and> length (trace (script (page (JFun 3) JUndefined))) = 1
   \<and> list_all is_call (trace (script (page (JFun 3) JUndefined)))
   \<and> result (script (page (JFun 3) JUndefined)) \<noteq> Hook_never_returns
   \<and> hook_end (page_with_hook_ending Never_returns) = Some Never_returns
   \<and> result (script (page_with_hook_ending Never_returns)) = Hook_never_returns
   \<and> \<not> truthy (hook (page (JStr []) JUndefined))
   \<and> trace (script (page (JStr []) JUndefined)) = [Write ''pending_implementors'' (JRef 0)]
   \<and> truthy (hook (page (JNum 2) JUndefined)) \<and> \<not> callable (hook (page (JNum 2) JUndefined))
   \<and> trace (script (page (JNum 2) JUndefined)) = []"
  using one_pass [of "page (JFun 3) JUndefined"]
    one_pass [of "page_with_hook_ending Never_returns"]
    one_pass [of "page (JStr []) JUndefined"]
    one_pass [of "page (JNum 2) JUndefined"]
  by (simp add: hook_page the_implementors_eq heap_page hook_end_page
      hook_end_page_with_hook_ending)

text \<open>
  With \<^verbatim>\<open>window.register_implementors = true\<close> the run has no effect at all; with a
  hook whose call never returns, the run does not end.
\<close>

theorem boolean_hook_no_effect:
  "length (trace (script (page (JBool True) JUndefined))) \<noteq> 1
   \<and> result (script (page_with_hook_ending Never_returns)) = Hook_never_returns"
  by (simp add: script_throws hook_page result_eq hook_end_page_with_hook_ending)

section \<open>Errors\<close>

text \<open>
  C7. The claim: no error conditions exist; for every initial window state (hook present,
  hook absent, pending variable set or not) the script never raises an error.

  As proved: the script completes normally exactly when
  \<^verbatim>\<open>window.register_implementors\<close> is falsy, or is a function whose call returns. A
  truthy value that is not a function makes the call throw a TypeError, and an exception
  thrown by the hook leaves the script, which does not catch it. When the property is
  falsy the script completes normally whatever \<^verbatim>\<open>window.pending_implementors\<close> holds.
\<close>

theorem no_error_iff:
  "(result (script s) = Normal \<longleftrightarrow> \<not> truthy (hook s) \<or> hook_end s = Some Returns)
   \<and> (truthy (hook s) \<and> \<not> callable (hook s) \<longrightarrow> result (script s) = TypeError)
   \<and> (hook_end s = Some (Throws x) \<longrightarrow> result (script s) = Hook_threw x)
   \<and> (\<not> truthy (hook s) \<longrightarrow>
        result (script (s\<lparr>window := (window s)(''pending_implementors'' := v)\<rparr>)) = Normal)"
proof (intro conjI impI)
  show "result (script s) = Normal \<longleftrightarrow> \<not> truthy (hook s) \<or> hook_end s = Some Returns"
  proof (cases "hook_end s")
    case None
    then show ?thesis by (simp add: result_eq)
  next
    case (Some e)
    then have "callable (hook s)"
      using hook_end_callable [of s] by simp
    then have "truthy (hook s)"
      by (cases "hook s") simp_all
    with Some show ?thesis
      by (cases e) (simp_all add: result_eq)
  qed
next
  assume "truthy (hook s) \<and> \<not> callable (hook s)"
  then show "result (script s) = TypeError"
    by (simp add: script_throws)
next
  assume "hook_end s = Some (Throws x)"
  then show "result (script s) = Hook_threw x"
    by (simp add: result_eq)
next
  assume "\<not> truthy (hook s)"
  then have "\<not> truthy (hook (s\<lparr>window := (window s)(''pending_implementors'' := v)\<rparr>))"
    by (simp add: hook_pending_update)
  then have "hook_end (s\<lparr>window := (window s)(''pending_implementors'' := v)\<rparr>) = None"
    using hook_end_callable [of "s\<lparr>window := (window s)(''pending_implementors'' := v)\<rparr>"]
    by (cases "hook (s\<lparr>window := (window s)(''pending_implementors'' := v)\<rparr>)") simp_all
  with \<open>\<not> truthy (hook (s\<lparr>window := (window s)(''pending_implementors'' := v)\<rparr>))\<close>
  show "result (script (s\<lparr>window := (window s)(''pending_implementors'' := v)\<rparr>)) = Normal"
    by (simp only: result_eq) simp
qed

text \<open>
  The theorem at a page whose hook returns, a page without hook and with the pending
  variable set, a page whose hook property is a string, and a page whose hook throws.
\<close>

theorem no_error_iff_witness:
  "hook_end (page (JFun 1) JUndefined) = Some Returns
   \<and> result (script (page (JFun 1) JUndefined)) = Normal
   \<and> \<not> truthy (hook (page JUndefined (JStr ''old'')))
   \<and> result (script (page JUndefined (JStr ''old''))) = Normal
   \<and> result (script ((page JUndefined (JStr ''old''))
        \<lparr>window := (window (page JUndefined (JStr ''old'')))
           (''pending_implementors'' := JNum 3)\<rparr>)) = Normal
   \<and> truthy (hook (page (JStr ''soon'') JUndefined))
   \<and> \<not> callable (hook (page (JStr ''soon'') JUndefined))
   \<and> result (script (page (JStr ''soon'') JUndefined)) = TypeError
   \<and> hook_end (page_with_hook_ending (Throws (JStr ''failed''))) = Some (Throws (JStr ''failed''))
   \<and> result (script (page_with_hook_ending (Throws (JStr ''failed''))))
        = Hook_threw (JStr ''failed'')"
  using no_error_iff [of "page (JFun 1) JUndefined"]
    no_error_iff [of "page JUndefined (JStr ''old'')" _ "JNum 3"]
    no_error_iff [of "page (JStr ''soon'') JUndefined"]
    no_error_iff [of "page_with_hook_ending (Throws (JStr ''failed''))" "JStr ''failed''"]
  by (simp add: hook_page hook_end_page hook_end_page_with_hook_ending)

text \<open>A page where the hook property holds a plain object: the call throws.\<close>

theorem object_hook_throws:
  "truthy (hook page_with_object_hook) \<and> result (script page_with_object_hook) = TypeError"
proof -
  have "hook page_with_object_hook = JRef 0"
    by (simp add: hook_def page_with_object_hook_def)
  then show ?thesis
    by (simp add: script_throws)
qed

section \<open>What the script writes\<close>

lemma window_final:
  "window (final (script s)) =
     (if truthy (hook s) then window s
      else (window s)(''pending_implementors'' := the_implementors s))"
  by (cases s rule: script_cases) (simp_all add: script_calls script_defers script_throws)

lemma trace_eq:
  "trace (script s) =
     (case hook s of
        JFun f \<Rightarrow> [Call f (the_implementors s)]
      | v \<Rightarrow> if truthy v then [] else [Write ''pending_implementors'' (the_implementors s)])"
proof (cases s rule: script_cases)
  case (calls f)
  then show ?thesis by (simp add: script_calls)
next
  case defers
  then show ?thesis by (cases "hook s") (simp_all add: script_defers)
next
  case throws
  then show ?thesis by (cases "hook s") (simp_all add: script_throws)
qed

text \<open>
  C8. The frame of the script: when \<^verbatim>\<open>window.register_implementors\<close> is present
  (truthy), \<^verbatim>\<open>window.pending_implementors\<close> is left as it was, whatever it held; when
  the hook is absent (more generally, whenever the property is not a function) the script
  calls no function; in every run no property of \<^verbatim>\<open>window\<close> other than
  \<^verbatim>\<open>pending_implementors\<close> changes, and the only property the script assigns is that
  one.
\<close>

theorem frame:
  "(truthy (hook s) \<longrightarrow> pending (final (script s)) = pending s)
   \<and> (\<not> callable (hook s) \<longrightarrow> \<not> list_ex is_call (trace (script s)))
   \<and> (\<forall>p. p \<noteq> ''pending_implementors'' \<longrightarrow> window (final (script s)) p = window s p)
   \<and> (\<forall>e \<in> set (trace (script s)).
         written_property e = None \<or> written_property e = Some ''pending_implementors'')"
proof (intro conjI impI allI ballI)
  assume "truthy (hook s)"
  then show "pending (final (script s)) = pending s"
    by (simp add: pending_def window_final)
next
  assume "\<not> callable (hook s)"
  then show "\<not> list_ex is_call (trace (script s))"
    by (cases "hook s") (simp_all add: trace_eq)
next
  fix p :: string
  assume "p \<noteq> ''pending_implementors''"
  then show "window (final (script s)) p = window s p"
    by (simp add: window_final)
next
  fix e
  assume "e \<in> set (trace (script s))"
  then show "written_property e = None \<or> written_property e = Some ''pending_implementors''"
    by (cases "hook s") (auto simp add: trace_eq split: if_splits)
qed

theorem frame_witness:
  "truthy (hook (page (JFun 2) (JStr ''earlier'')))
   \<and> pending (final (script (page (JFun 2) (JStr ''earlier'')))) = JStr ''earlier''
   \<and> \<not> callable (hook (page JNull JUndefined))
   \<and> \<not> list_ex is_call (trace (script (page JNull JUndefined)))
   \<and> window (final (script (page JNull JUndefined))) ''register_implementors'' = JNull
   \<and> Write ''pending_implementors'' (JRef 0) \<in> set (trace (script (page JNull JUndefined)))"
  using frame [of "page (JFun 2) (JStr ''earlier'')"] frame [of "page JNull JUndefined"]
  by (simp add: hook_page pending_page trace_eq the_implementors_eq heap_page)
     (simp add: page_def no_properties_def)

text \<open>
  C9. In the fallback branch the assignment replaces whatever
  \<^verbatim>\<open>window.pending_implementors\<close> held: for every earlier value \<open>old\<close> the variable
  ends up referring to the mapping of this run, and read as an index it holds this run's
  entries only, so earlier mappings are not kept in it.
\<close>

theorem pending_overwritten:
  assumes "\<not> truthy (hook s)"
  shows "pending (final (script (s\<lparr>window := (window s)(''pending_implementors'' := old)\<rparr>)))
           = the_implementors s
       \<and> index_of (heap (final (script (s\<lparr>window := (window s)(''pending_implementors'' := old)\<rparr>))))
           (pending (final (script (s\<lparr>window := (window s)(''pending_implementors'' := old)\<rparr>))))
           = Some [(''actix_web'', [entry_ClientConnector, entry_HttpServer])]"
proof -
  let ?t = "s\<lparr>window := (window s)(''pending_implementors'' := old)\<rparr>"
  have h: "\<not> truthy (hook ?t)"
    using assms by (simp add: hook_pending_update)
  have i: "the_implementors ?t = the_implementors s"
    by (simp add: the_implementors_def)
  have p: "pending (final (script ?t)) = the_implementors s"
    using h by (simp add: pending_def window_final i)
  from index_at_end [of ?t] have "index_of (heap (final (script ?t))) (the_implementors s)
      = Some [(''actix_web'', [entry_ClientConnector, entry_HttpServer])]"
    by (simp only: i)
  with p show ?thesis
    by simp
qed

theorem pending_overwritten_witness:
  "\<not> truthy (hook (page JUndefined JUndefined))
   \<and> pending (final (script ((page JUndefined JUndefined)
        \<lparr>window := (window (page JUndefined JUndefined))
           (''pending_implementors'' := JStr ''an earlier mapping'')\<rparr>))) = JRef 0"
  using pending_overwritten [of "page JUndefined JUndefined" "JStr ''an earlier mapping''"]
  by (simp add: hook_page the_implementors_eq heap_page)

section \<open>Determinism\<close>

text \<open>
  C10. The claim: the observable effect of the script (which branch runs, the argument
  passed to the hook, the value stored in the pending variable) is a function only of
  whether \<^verbatim>\<open>window.register_implementors\<close> is defined; equal initial states give
  equal effects, and the mapping delivered is the same in either branch.

  As proved: the effect is a function only of whether the property is truthy and whether
  it is a function, so states that agree on both (equal states among them) have the same
  effect; the hook, when it is a function, receives the same index that the pending
  variable receives when the property is falsy. Being defined does not decide the branch:
  \<^verbatim>\<open>null\<close>, \<^verbatim>\<open>false\<close>, 0, NaN and the empty string are defined or assigned values
  that take the \<^verbatim>\<open>else\<close> branch.
\<close>

theorem effect_determined:
  "(truthy (hook s) = truthy (hook t) \<and> callable (hook s) = callable (hook t)
      \<longrightarrow> effect_of s = effect_of t)
   \<and> (callable (hook s) \<longrightarrow>
        hook_argument (effect_of s)
          = Some [(''actix_web'', [entry_ClientConnector, entry_HttpServer])])
   \<and> (\<not> truthy (hook t) \<longrightarrow>
        stored (effect_of t)
          = Some [(''actix_web'', [entry_ClientConnector, entry_HttpServer])])"
  by (simp add: effect_of_eq)

theorem effect_determined_witness:
  "truthy (hook (page (JFun 4) JNull)) = truthy (hook (page (JFun 9) (JNum 5)))
   \<and> callable (hook (page (JFun 4) JNull)) = callable (hook (page (JFun 9) (JNum 5)))
   \<and> effect_of (page (JFun 4) JNull) = effect_of (page (JFun 9) (JNum 5))
   \<and> hook_argument (effect_of (page (JFun 4) JNull))
        = stored (effect_of (page (JNum 0) JNull))"
  using effect_determined [of "page (JFun 4) JNull" "page (JFun 9) (JNum 5)"]
    effect_determined [of "page (JFun 4) JNull" "page (JNum 0) JNull"]
  by (simp add: hook_page)

text \<open>
  Two pages whose hook property is not \<^verbatim>\<open>undefined\<close>, \<^verbatim>\<open>false\<close> on one and a
  function on the other: the first run takes the \<^verbatim>\<open>else\<close> branch and stores the
  mapping, the second takes the \<^verbatim>\<open>then\<close> branch and passes it to the hook.
\<close>

theorem defined_hooks_differ:
  "hook (page (JBool False) JUndefined) \<noteq> JUndefined
   \<and> hook (page (JFun 0) JUndefined) \<noteq> JUndefined
   \<and> taken (effect_of (page (JBool False) JUndefined)) = Else_branch
   \<and> taken (effect_of (page (JFun 0) JUndefined)) = Then_branch
   \<and> effect_of (page (JBool False) JUndefined) \<noteq> effect_of (page (JFun 0) JUndefined)"
  by (simp add: effect_of_eq hook_page)

section \<open>The index is written once\<close>

text \<open>
  C5. Once lines 1 and 2 have built the mapping (the empty object and the assignment of
  its one key), nothing in the script changes it: the heap at the end of the run is the
  heap as line 2 left it, the objects that were on the heap before the run are as they
  were, every value the script hands to the hook or stores in the pending variable is the
  reference to that mapping, and the index read at the end is the index as built.
\<close>

theorem index_not_mutated:
  "heap (final (script s)) = snd (build_implementors (heap s))
   \<and> take (length (heap s)) (heap (final (script s))) = heap s
   \<and> (\<forall>v \<in> set (delivered (script s)). v = the_implementors s)
   \<and> index_built s = index_of (snd (build_implementors (heap s))) (the_implementors s)"
proof (intro conjI ballI)
  show "heap (final (script s)) = snd (build_implementors (heap s))"
    by (rule heap_final)
  show "take (length (heap s)) (heap (final (script s))) = heap s"
    by (simp add: heap_final build_implementors_eq)
  show "index_built s = index_of (snd (build_implementors (heap s))) (the_implementors s)"
    by (simp add: index_built_def heap_final)
next
  fix v assume "v \<in> set (delivered (script s))"
  then show "v = the_implementors s"
    by (cases "hook s") (auto simp add: delivered_def trace_eq split: if_splits)
qed

theorem index_not_mutated_witness:
  "delivered (script (page (JFun 1) JUndefined)) = [JRef 0]
   \<and> JRef 0 = the_implementors (page (JFun 1) JUndefined)
   \<and> delivered (script (page JUndefined JUndefined)) = [JRef 0]
   \<and> JRef 0 = the_implementors (page JUndefined JUndefined)"
  using index_not_mutated [of "page (JFun 1) JUndefined"]
    index_not_mutated [of "page JUndefined JUndefined"]
  by (simp add: delivered_def trace_eq hook_page the_implementors_eq heap_page)

section \<open>The content of the index\<close>

lemma render_where:
  assumes "bounds i \<noteq> []"
  shows "sublist (where_clause (bounds i)) (render i)"
  unfolding render_def using assms
  by (simp only: if_False) (intro sublist_skip sublist_order.order.refl)

lemma names_trait_render:
  assumes "last_segment k = trait_name i"
  shows "names_trait k (render i)"
  unfolding names_trait_def assms by (rule render_trait)

lemma last_segment_Actor: "last_segment ''actix::actor::Actor'' = ''Actor''"
  by (simp add: last_segment_def)

lemma ClientConnector_not_for_actix_web:
  "\<not> names_trait ''actix_web'' entry_ClientConnector"
  by code_simp

text \<open>
  C2. The claim: every key of the index is a fully-qualified trait name, that is, each
  key names the trait whose implementors its sequence lists.

  The one key is \<^verbatim>\<open>actix_web\<close>, the crate that provides the implementing types; the
  trait is \<^verbatim>\<open>Actor\<close> (\<^verbatim>\<open>actix::actor::Actor\<close>, as in the path of the file), which
  every entry names in its text. As proved: under each key \<open>k\<close> of the index, each entry
  is the rendering of an implementor whose type path and link start with \<open>k\<close>, and each
  entry reads \<^verbatim>\<open>Actor for\<close>.
\<close>

theorem keys_name_crate:
  "\<exists>idx. index_built s = Some idx
     \<and> list_all (\<lambda>(k, es).
          list_all2 (\<lambda>i e. e = render i \<and> from_crate k i
                            \<and> names_trait ''actix::actor::Actor'' e)
            [ClientConnector_impl, HttpServer_impl] es) idx"
proof -
  have c: "from_crate ''actix_web'' ClientConnector_impl"
    by (simp add: from_crate_def ClientConnector_impl_def)
  have h: "from_crate ''actix_web'' HttpServer_impl"
    by (simp add: from_crate_def HttpServer_impl_def)
  have tc: "names_trait ''actix::actor::Actor'' (render ClientConnector_impl)"
    by (rule names_trait_render) (simp add: last_segment_Actor ClientConnector_impl_def)
  have th: "names_trait ''actix::actor::Actor'' (render HttpServer_impl)"
    by (rule names_trait_render) (simp add: last_segment_Actor HttpServer_impl_def)
  have "index_built s
      = Some [(''actix_web'', [render ClientConnector_impl, render HttpServer_impl])]"
    by (simp only: index_built_eq entry_ClientConnector_render entry_HttpServer_render)
  with c h tc th show ?thesis
    by simp
qed

text \<open>
  The key \<^verbatim>\<open>actix_web\<close> does not name the trait of the first entry, which reads
  \<^verbatim>\<open>impl Actor for ...\<close>.
\<close>

theorem key_is_not_trait_name:
  "index_built (page JUndefined JUndefined)
     = Some [(''actix_web'', [entry_ClientConnector, entry_HttpServer])]
   \<and> \<not> keys_name_trait [(''actix_web'', [entry_ClientConnector, entry_HttpServer])]"
  by (simp add: index_built_eq keys_name_trait_def ClientConnector_not_for_actix_web)

text \<open>
  C3. For every key of the index the value is a sequence of strings (the index has a
  reading), and each string is the description of an implementor: it contains the name of
  the implementing type with its type arguments, and each of its bounds.
\<close>

theorem entries_describe_implementors:
  "\<exists>idx. index_built s = Some idx
     \<and> list_all (\<lambda>(k, es).
          list_all2 describes [ClientConnector_impl, HttpServer_impl] es) idx"
proof -
  have "index_built s
      = Some [(''actix_web'', [render ClientConnector_impl, render HttpServer_impl])]"
    by (simp only: index_built_eq entry_ClientConnector_render entry_HttpServer_render)
  then show ?thesis
    by (simp add: render_describes)
qed

text \<open>
  C4. The sequence under the key \<^verbatim>\<open>actix_web\<close> has exactly two entries: first the
  description of \<^verbatim>\<open>ClientConnector\<close>, then the description of
  \<^verbatim>\<open>HttpServer&lt;T, A, H, U&gt;\<close> with its where-clause of five bounds.
\<close>

theorem actix_web_entries:
  "map_option (\<lambda>idx. map_of idx ''actix_web'') (index_built s)
     = Some (Some [entry_ClientConnector, entry_HttpServer])
   \<and> length [entry_ClientConnector, entry_HttpServer] = 2
   \<and> describes ClientConnector_impl entry_ClientConnector
   \<and> type_name ClientConnector_impl = ''ClientConnector''
   \<and> describes HttpServer_impl entry_HttpServer
   \<and> type_name HttpServer_impl = ''HttpServer''
   \<and> type_args HttpServer_impl = ''&lt;T, A, H, U&gt;''
   \<and> length (bounds HttpServer_impl) = 5
   \<and> sublist (where_clause (bounds HttpServer_impl)) entry_HttpServer"
proof -
  have b: "bounds HttpServer_impl \<noteq> []"
    by (simp add: HttpServer_impl_def)
  have "sublist (where_clause (bounds HttpServer_impl)) entry_HttpServer"
    unfolding entry_HttpServer_render using b by (rule render_where)
  moreover have "describes ClientConnector_impl entry_ClientConnector"
    unfolding entry_ClientConnector_render by (rule render_describes)
  moreover have "describes HttpServer_impl entry_HttpServer"
    unfolding entry_HttpServer_render by (rule render_describes)
  moreover have "type_name ClientConnector_impl = ''ClientConnector''"
    by (simp add: ClientConnector_impl_def)
  moreover have "type_name HttpServer_impl = ''HttpServer''"
    "type_args HttpServer_impl = ''&lt;T, A, H, U&gt;''"
    "length (bounds HttpServer_impl) = 5"
    by (simp_all add: HttpServer_impl_def)
  ultimately show ?thesis
    by (simp add: index_built_eq)
qed

end
